theory Spec2Isabelle
  imports Main
begin

section \<open>JavaScript values\<close>

text \<open>
  The values that flow through \<^verbatim>\<open>src/lib/biolock-embed.js\<close>: the fields of the
  \<^verbatim>\<open>options\<close> object, the payload of a message event and the arguments handed to the
  user's callbacks. A string is a sequence of bytes (its UTF-8 encoding, which is what the
  URL serializer works on). \<open>JNum\<close> holds the integral numbers and \<open>JNaN\<close> the
  not-a-number value; an object is the list of its own enumerable fields in the order
  \<^verbatim>\<open>Object.keys\<close> reports them; a function and a DOM element are known by an identifier.
  Arrays, BigInts and symbols are not represented.
\<close>

datatype jsval =
    JUndefined
  | JNull
  | JBool bool
  | JNum int
  | JNaN
  | JStr string
  | JObj "(string \<times> jsval) list"
  | JFun nat
  | JElem nat

text \<open>ToBoolean: what \<^verbatim>\<open>!v\<close>, \<^verbatim>\<open>v || w\<close>, \<^verbatim>\<open>v && w\<close> and \<^verbatim>\<open>if (v)\<close> test.\<close>

fun truthy :: "jsval \<Rightarrow> bool" where
  "truthy JUndefined = False"
| "truthy JNull = False"
| "truthy (JBool b) = b"
| "truthy (JNum n) = (n \<noteq> 0)"
| "truthy JNaN = False"
| "truthy (JStr s) = (s \<noteq> [])"
| "truthy (JObj fs) = True"
| "truthy (JFun f) = True"
| "truthy (JElem e) = True"

text \<open>\<^verbatim>\<open>a || b\<close>\<close>

definition js_or :: "jsval \<Rightarrow> jsval \<Rightarrow> jsval" where
  "js_or a b = (if truthy a then a else b)"

text \<open>
  Reading a property \<^verbatim>\<open>v.k\<close> of a value that is neither \<^verbatim>\<open>null\<close> nor
  \<^verbatim>\<open>undefined\<close>: a field of an object, \<^verbatim>\<open>undefined\<close> when the object has no such
  field, and \<^verbatim>\<open>undefined\<close> on a primitive (none of the names the program reads is a
  built-in property of a string, number or boolean).
\<close>

fun js_get :: "jsval \<Rightarrow> string \<Rightarrow> jsval" where
  "js_get (JObj fs) k = (case map_of fs k of Some v \<Rightarrow> v | None \<Rightarrow> JUndefined)"
| "js_get v k = JUndefined"

text \<open>Reading a property of \<^verbatim>\<open>null\<close> or \<^verbatim>\<open>undefined\<close> raises a TypeError.\<close>

fun nullish :: "jsval \<Rightarrow> bool" where
  "nullish JUndefined = True"
| "nullish JNull = True"
| "nullish v = False"

datatype js_error =
    RequiredOptionsMissing
  | ContainerNotFound
  | DOMSyntaxError
  | TypeError

section \<open>The host page\<close>

text \<open>
  What the browser supplies and the program only calls: the page's origin
  (\<^verbatim>\<open>window.location.origin\<close>), \<^verbatim>\<open>document.querySelector\<close>, whether an element is
  connected to the document (an iframe has a \<^verbatim>\<open>contentWindow\<close> only then), whether
  an element is an instance of \<^verbatim>\<open>HTMLElement\<close> (an SVG element, or an element of
  another window, is not), \<^verbatim>\<open>JSON.parse\<close> (\<open>None\<close> when it raises a SyntaxError), the
  numeric reading of a string that \<^verbatim>\<open>isNaN\<close> makes, whether the style of an element
  takes a text as a \<^verbatim>\<open>height\<close> (an assignment of a text that is no valid length, such
  as \<^verbatim>\<open>-5px\<close>, leaves the style as it was), and the string conversion of numbers,
  objects, functions and elements.
\<close>

datatype query_result = QSyntaxError | QNull | QElem nat

record platform =
  location_origin :: string
  querySelector :: "string \<Rightarrow> query_result"
  is_connected :: "nat \<Rightarrow> bool"
  is_HTMLElement :: "nat \<Rightarrow> bool"
  JSON_parse :: "string \<Rightarrow> jsval option"
  string_is_NaN :: "string \<Rightarrow> bool"
  valid_height :: "string \<Rightarrow> bool"
  render :: "jsval \<Rightarrow> string"

text \<open>ToString, as \<^verbatim>\<open>URLSearchParams.set\<close> and string concatenation apply it.\<close>

fun to_string :: "platform \<Rightarrow> jsval \<Rightarrow> string" where
  "to_string p (JStr s) = s"
| "to_string p JUndefined = ''undefined''"
| "to_string p JNull = ''null''"
| "to_string p (JBool b) = (if b then ''true'' else ''false'')"
| "to_string p JNaN = ''NaN''"
| "to_string p v = render p v"

text \<open>
  The global \<^verbatim>\<open>isNaN\<close>: ToNumber of the argument is NaN. An object is taken to be a
  plain record, which converts through \<^verbatim>\<open>Object.prototype.toString\<close> to a text that is
  no number; a record that carries a field named \<^verbatim>\<open>valueOf\<close> or \<^verbatim>\<open>toString\<close> of its
  own, for which the conversion raises a TypeError, is beyond this function.
\<close>

fun isNaN :: "platform \<Rightarrow> jsval \<Rightarrow> bool" where
  "isNaN p JUndefined = True"
| "isNaN p JNull = False"
| "isNaN p (JBool b) = False"
| "isNaN p (JNum n) = False"
| "isNaN p JNaN = True"
| "isNaN p (JStr s) = string_is_NaN p s"
| "isNaN p v = True"

section \<open>URLSearchParams\<close>

text \<open>
  The \<^verbatim>\<open>application/x-www-form-urlencoded\<close> serializer of the URL standard: a space
  becomes \<open>+\<close>, the ASCII letters and digits and \<open>* - . _\<close> stay, every other byte is
  written as \<open>%\<close> and two upper-case hexadecimal digits.
\<close>

definition hex_digit :: "nat \<Rightarrow> char" where
  "hex_digit n = ''0123456789ABCDEF'' ! (n mod 16)"

definition unreserved :: "char \<Rightarrow> bool" where
  "unreserved c =
     (let n = (of_char c :: nat) in
        (48 \<le> n \<and> n \<le> 57) \<or> (65 \<le> n \<and> n \<le> 90) \<or> (97 \<le> n \<and> n \<le> 122)
        \<or> n = 42 \<or> n = 45 \<or> n = 46 \<or> n = 95)"

definition encode_byte :: "char \<Rightarrow> string" where
  "encode_byte c =
     (if c = CHR '' '' then ''+''
      else if unreserved c then [c]
      else [CHR ''%'', hex_digit ((of_char c :: nat) div 16), hex_digit ((of_char c :: nat) mod 16)])"

definition urlencode :: "string \<Rightarrow> string" where
  "urlencode s = concat (map encode_byte s)"

text \<open>
  \<^verbatim>\<open>params.set(name, value)\<close>: the first pair of that name takes the value and the
  other pairs of that name go; with no such pair, the pair is appended.
\<close>

fun params_set :: "(string \<times> string) list \<Rightarrow> string \<Rightarrow> string \<Rightarrow> (string \<times> string) list" where
  "params_set [] k v = [(k, v)]"
| "params_set ((k', v') # ps) k v =
     (if k' = k then (k, v) # filter (\<lambda>q. fst q \<noteq> k) ps
      else (k', v') # params_set ps k v)"

definition param_text :: "string \<times> string \<Rightarrow> string" where
  "param_text q = urlencode (fst q) @ ''='' @ urlencode (snd q)"

text \<open>\<^verbatim>\<open>params.toString()\<close>: the pairs joined by \<open>&\<close>.\<close>

fun params_toString :: "(string \<times> string) list \<Rightarrow> string" where
  "params_toString [] = []"
| "params_toString [q] = param_text q"
| "params_toString (q # qs) = param_text q @ ''&'' @ params_toString qs"

section \<open>Observable effects\<close>

text \<open>
  The handler and the constructor act on the world by calling a user callback, posting a
  message to a window and writing to the console. A run yields these in the order they
  happen. The frame's own window is \<open>FrameWindow\<close>.
\<close>

datatype slot =
    PageLoaded
  | CreatedDocument
  | CreatedBiolink
  | BiolinkNotCreated
  | DocumentDelivery
  | ErrorSlot
  | DocumentFilesAutoDownloaded
  | CertifiedSenderPhoto
  | DocumentAttributes
  | JsonToParent
  | DocumentNotFound

datatype log_entry =
    UnknownPage jsval
  | ParseFailure
  | CallbackThrew
  | NotCallable
  | NotHandled jsval

datatype window = FrameWindow | OtherWindow nat

datatype effect =
    Invoke slot jsval
  | PostMessage window jsval
  | ConsoleError log_entry
  | ConsoleLog log_entry

section \<open>Building the frame's URL\<close>

text \<open>\<^verbatim>\<open>baseUrl.replace(/\/$/, "")\<close> and \<^verbatim>\<open>path.replace(/^\//, "")\<close>\<close>

definition strip_trailing_slash :: "string \<Rightarrow> string" where
  "strip_trailing_slash s = (if s \<noteq> [] \<and> last s = CHR ''/'' then butlast s else s)"

definition strip_leading_slash :: "string \<Rightarrow> string" where
  "strip_leading_slash s = (case s of [] \<Rightarrow> [] | c # cs \<Rightarrow> if c = CHR ''/'' then cs else s)"

definition known_origins :: "string list" where
  "known_origins =
     [''http://127.0.0.1:3000'', ''http://localhost:3000'', ''http://localhost:8000'',
      ''https://dev.biolock.ai'', ''https://biolock.ai'']"

definition allowedPages :: "jsval list" where
  "allowedPages = [JStr ''upload'', JStr ''download'', JStr ''create-biolink'']"

text \<open>\<^verbatim>\<open>key.startsWith("on")\<close>\<close>

definition starts_with_on :: "string \<Rightarrow> bool" where
  "starts_with_on k = (take 2 k = ''on'')"

text \<open>
  One round of the loop over \<^verbatim>\<open>Object.keys(this.options)\<close>: a field whose name does
  not start with \<open>on\<close> is set as a parameter.
\<close>

definition add_param :: "platform \<Rightarrow> string \<times> jsval \<Rightarrow> (string \<times> string) list \<Rightarrow> (string \<times> string) list" where
  "add_param p f ps =
     (if \<not> starts_with_on (fst f) then params_set ps (fst f) (to_string p (snd f)) else ps)"

text \<open>
  \<^verbatim>\<open>_buildIframeUrl()\<close>, on the fields of \<^verbatim>\<open>this.options\<close>. It returns the URL and
  what it wrote to the console.
\<close>

definition buildIframeUrl :: "platform \<Rightarrow> (string \<times> jsval) list \<Rightarrow> string \<times> effect list" where
  "buildIframeUrl p fs =
     (let baseUrl = (if location_origin p \<in> set known_origins then location_origin p
                     else ''https://biolock.ai'');
          page = js_get (JObj fs) ''page'';
          known = (page \<in> set allowedPages);
          logs = (if known then [] else [ConsoleError (UnknownPage page)]);
          path0 = (if known then to_string p page else ''/'');
          path1 = (if page = JStr ''download'' then ''d'' else path0);
          path = (if page = JStr ''createBiolink'' then ''create-biolink'' else path1);
          url0 = strip_trailing_slash baseUrl @ ''/'' @ strip_leading_slash path;
          params = fold (add_param p) fs [(''display_mode'', ''reduced'')];
          queryString = params_toString params;
          url1 = (if queryString \<noteq> [] then url0 @ ''?'' @ queryString else url0);
          document_key = js_get (JObj fs) ''document_key'';
          url = (if truthy document_key then url1 @ to_string p document_key else url1)
      in (url, logs))"

section \<open>The page and the controller\<close>

text \<open>
  The part of the DOM the controller touches, as parent pointers: the nodes of the page
  and the one iframe element this controller creates. \<open>frame_el\<close> is that element
  (\<open>None\<close> until \<^verbatim>\<open>document.createElement\<close> has run) and \<open>listening\<close> tells whether the
  instance's bound handler is registered for the window's \<^verbatim>\<open>message\<close> events.
  The style of the element is kept as the text assigned to it, its \<^verbatim>\<open>display\<close> and its
  \<^verbatim>\<open>height\<close>.
\<close>

datatype node = PageNode nat | FrameNode

datatype frame_handle = FrameHandle

record iframe_el =
  src :: string
  style_text :: string
  style_display :: string
  style_height :: "string option"
  allow :: string
  attributes :: "(string \<times> string) list"

record world =
  parentNode :: "node \<Rightarrow> nat option"
  frame_el :: "iframe_el option"
  listening :: bool

text \<open>
  \<^verbatim>\<open>this.iframe.contentWindow\<close>: the window of the frame while the element sits in a
  connected parent, \<^verbatim>\<open>null\<close> otherwise.
\<close>

definition contentWindow :: "platform \<Rightarrow> world \<Rightarrow> window option" where
  "contentWindow p w =
     (case parentNode w FrameNode of
        None \<Rightarrow> None
      | Some e \<Rightarrow> if is_connected p e then Some FrameWindow else None)"

record callback_table =
  pageLoaded :: jsval
  createdDocument :: jsval
  createdBiolink :: jsval
  biolinkNotCreated :: jsval
  documentDelivery :: jsval
  error :: jsval
  documentFilesAutoDownloaded :: jsval
  certifiedSenderPhoto :: jsval
  documentAttributes :: jsval
  jsonToParent :: jsval
  documentNotFound :: jsval

text \<open>The fields of \<^verbatim>\<open>this\<close>; \<^verbatim>\<open>destroy\<close> sets each of them to \<^verbatim>\<open>null\<close>.\<close>

record controller =
  containerElement :: "nat option"
  options :: jsval
  callbacks :: "callback_table option"
  iframe :: "frame_handle option"

record message_event =
  ev_source :: "window option"
  ev_data :: jsval

subsection \<open>The constructor\<close>

text \<open>
  Lines 67 to 74: a string is looked up with \<^verbatim>\<open>document.querySelector\<close> (which raises on
  a selector it cannot parse) and whatever element it finds is taken; a value that is an
  instance of \<^verbatim>\<open>HTMLElement\<close> is taken as it is; anything else, also an element that is
  no such instance, leaves \<^verbatim>\<open>this.containerElement\<close> undefined.
\<close>

definition resolve_container :: "platform \<Rightarrow> jsval \<Rightarrow> js_error + nat" where
  "resolve_container p c =
     (case c of
        JStr sel \<Rightarrow>
          (case querySelector p sel of
             QSyntaxError \<Rightarrow> Inl DOMSyntaxError
           | QNull \<Rightarrow> Inl ContainerNotFound
           | QElem e \<Rightarrow> Inr e)
      | JElem e \<Rightarrow> if is_HTMLElement p e then Inr e else Inl ContainerNotFound
      | _ \<Rightarrow> Inl ContainerNotFound)"

definition fields_of :: "jsval \<Rightarrow> (string \<times> jsval) list" where
  "fields_of v = (case v of JObj fs \<Rightarrow> fs | _ \<Rightarrow> [])"

definition make_callbacks :: "jsval \<Rightarrow> callback_table" where
  "make_callbacks opts =
     \<lparr> pageLoaded = js_or (js_get opts ''onPageLoaded'') JNull,
       createdDocument = js_or (js_get opts ''onCreatedDocument'') JNull,
       createdBiolink = js_or (js_get opts ''onCreatedBiolink'') JNull,
       biolinkNotCreated = js_or (js_get opts ''onBiolinkNotCreated'') JNull,
       documentDelivery = js_or (js_get opts ''onDocumentDelivery'') JNull,
       error = js_or (js_get opts ''onError'') JNull,
       documentFilesAutoDownloaded = js_or (js_get opts ''onDocumentFilesAutoDownloaded'') JNull,
       certifiedSenderPhoto = js_or (js_get opts ''onCertifiedSenderPhoto'') JNull,
       documentAttributes = js_or (js_get opts ''onDocumentAttributes'') JNull,
       jsonToParent = js_or (js_get opts ''onJsonToParent'') JNull,
       documentNotFound = js_or (js_get opts ''onDocumentNotFound'') JNull \<rparr>"

text \<open>
  \<^verbatim>\<open>containerElement.innerHTML = ""\<close> followed by \<^verbatim>\<open>appendChild(this.iframe)\<close>: every
  child of the container loses its parent and the frame becomes the container's child.
\<close>

definition mount :: "nat \<Rightarrow> (node \<Rightarrow> nat option) \<Rightarrow> node \<Rightarrow> nat option" where
  "mount c par n =
     (if n = FrameNode then Some c else if par n = Some c then None else par n)"

text \<open>
  \<^verbatim>\<open>new BiolockEmbed(options)\<close>. The result is the error thrown or the new instance, the
  page afterwards, and what was written to the console.
\<close>

definition construct :: "platform \<Rightarrow> world \<Rightarrow> jsval \<Rightarrow> (js_error + controller) \<times> world \<times> effect list" where
  "construct p w opts =
     (if \<not> truthy opts \<or> \<not> truthy (js_get opts ''container'') \<or> \<not> truthy (js_get opts ''page'')
      then (Inl RequiredOptionsMissing, w, [])
      else
        (case resolve_container p (js_get opts ''container'') of
           Inl e \<Rightarrow> (Inl e, w, [])
         | Inr c \<Rightarrow>
             (let built = buildIframeUrl p (fields_of opts);
                  fr = \<lparr> src = fst built,
                         style_text = to_string p (js_or (js_get opts ''style'') (JStr [])),
                         style_display = ''none'',
                         style_height = None,
                         allow = ''camera'',
                         attributes = [(''allowfullscreen'', ''true''), (''scrolling'', ''no'')] \<rparr>
              in (Inr \<lparr> containerElement = Some c, options = opts,
                        callbacks = Some (make_callbacks opts), iframe = Some FrameHandle \<rparr>,
                  w \<lparr> parentNode := mount c (parentNode w), frame_el := Some fr, listening := True \<rparr>,
                  snd built))))"

text \<open>\<^verbatim>\<open>this.iframe.onload\<close>\<close>

definition iframe_onload :: "world \<Rightarrow> world" where
  "iframe_onload w = w \<lparr> frame_el := map_option (\<lambda>f. f \<lparr> style_display := ''block'' \<rparr>) (frame_el w) \<rparr>"

subsection \<open>The message handler\<close>

text \<open>
  A user callback is known by the identifier of its function; \<open>throws f v\<close> tells whether
  the function \<open>f\<close> raises when it is called with \<open>v\<close>. A call inside
  \<^verbatim>\<open>try { ... } catch (err) { console.error(err) }\<close>: calling a value that is not a
  function raises a TypeError, which the same \<^verbatim>\<open>catch\<close> logs.
\<close>

definition try_call :: "(nat \<Rightarrow> jsval \<Rightarrow> bool) \<Rightarrow> slot \<Rightarrow> jsval \<Rightarrow> jsval \<Rightarrow> effect list" where
  "try_call throws sl cb arg =
     (case cb of
        JFun f \<Rightarrow> Invoke sl arg # (if throws f arg then [ConsoleError CallbackThrew] else [])
      | _ \<Rightarrow> [ConsoleError NotCallable])"

text \<open>\<^verbatim>\<open>if (this.callbacks.x) { try { this.callbacks.x(arg) } catch ... }\<close>\<close>

definition relay :: "(nat \<Rightarrow> jsval \<Rightarrow> bool) \<Rightarrow> callback_table option \<Rightarrow> (callback_table \<Rightarrow> jsval) \<Rightarrow> slot \<Rightarrow> jsval \<Rightarrow> js_error option \<times> effect list" where
  "relay throws cbs sel sl arg =
     (case cbs of
        None \<Rightarrow> (Some TypeError, [])
      | Some t \<Rightarrow> (None, if truthy (sel t) then try_call throws sl (sel t) arg else []))"

text \<open>
  \<^verbatim>\<open>_resizeIframe(newHeight)\<close>. The assignment to \<^verbatim>\<open>style.height\<close> takes effect only
  when the text is a valid height.
\<close>

definition resizeIframe :: "platform \<Rightarrow> world \<Rightarrow> jsval \<Rightarrow> world" where
  "resizeIframe p w newHeight =
     (if \<not> truthy newHeight \<or> isNaN p newHeight then w
      else if valid_height p (to_string p newHeight @ ''px'')
      then w \<lparr> frame_el :=
                 map_option (\<lambda>f. f \<lparr> style_height := Some (to_string p newHeight @ ''px'') \<rparr>) (frame_el w) \<rparr>
      else w)"

definition originProof :: jsval where
  "originProof = JObj [(''source'', JStr ''parent''), (''messageType'', JStr ''originProof'')]"

text \<open>The \<^verbatim>\<open>case 'error'\<close> branch, lines 278 to 317.\<close>

definition error_case :: "(nat \<Rightarrow> jsval \<Rightarrow> bool) \<Rightarrow> callback_table option \<Rightarrow> jsval \<Rightarrow> js_error option \<times> effect list" where
  "error_case throws cbs d =
     (case cbs of
        None \<Rightarrow> (Some TypeError, [])
      | Some t \<Rightarrow>
          (None,
           if truthy (js_get d ''errorCode'') \<and> js_get d ''errorCode'' = JStr ''documentNotFound'' then
             (if truthy (documentNotFound t)
              then try_call throws DocumentNotFound (documentNotFound t) (js_get d ''errorMessage'')
              else if truthy (error t)
              then try_call throws ErrorSlot (error t) (js_get d ''errorMessage'')
              else [])
           else if truthy (js_get d ''errorCode'') \<and> js_get d ''errorCode'' = JStr ''biolinkNotCreated'' then
             (if truthy (biolinkNotCreated t)
              then try_call throws BiolinkNotCreated (biolinkNotCreated t) (js_get d ''errorMessage'')
              else if truthy (error t)
              then try_call throws ErrorSlot (error t) d
              else [])
           else
             (if truthy (error t)
              then try_call throws ErrorSlot (error t)
                     (js_or (js_get d ''error'') (js_or (js_get d ''message'') d))
              else [])))"

text \<open>
  The \<^verbatim>\<open>switch (data.messageType)\<close> of lines 192 to 323, on a payload \<open>d\<close> that is neither
  \<^verbatim>\<open>null\<close> nor \<^verbatim>\<open>undefined\<close>. It yields the error that escapes (if one does), the page
  afterwards and the effects in order. Calling \<^verbatim>\<open>postMessage\<close> on a \<^verbatim>\<open>contentWindow\<close>
  that is null would raise a TypeError; inside the handler the window is the event's
  source, which is not null.
\<close>

definition dispatch :: "platform \<Rightarrow> (nat \<Rightarrow> jsval \<Rightarrow> bool) \<Rightarrow> callback_table option \<Rightarrow> world \<Rightarrow> jsval \<Rightarrow> js_error option \<times> world \<times> effect list" where
  "dispatch p throws cbs w d =
     (let mt = js_get d ''messageType'' in
      if mt = JStr ''contentSize'' then (None, resizeIframe p w (js_get d ''height''), [])
      else if mt = JStr ''pageLoaded'' then
        (case contentWindow p w of
           None \<Rightarrow> (Some TypeError, w, [])
         | Some win \<Rightarrow>
             (let r = relay throws cbs pageLoaded PageLoaded (js_get d ''page'')
              in (fst r, w, PostMessage win originProof # snd r)))
      else if mt = JStr ''documentAttributes'' then
        (let r = relay throws cbs documentAttributes DocumentAttributes
                   (JObj [(''firstDownloadedAt'', js_get d ''firstDownloadedAt'')])
         in (fst r, w, snd r))
      else if mt = JStr ''jsonToParent'' then
        (let r = relay throws cbs jsonToParent JsonToParent (js_get d ''json'')
         in (fst r, w, snd r))
      else if mt = JStr ''documentDelivery'' then
        (let r = relay throws cbs documentDelivery DocumentDelivery (js_get d ''delivered'')
         in (fst r, w, snd r))
      else if mt = JStr ''documentFilesAutoDownloaded'' then
        (let r = relay throws cbs documentFilesAutoDownloaded DocumentFilesAutoDownloaded
                   (js_get d ''downloaded'')
         in (fst r, w, snd r))
      else if mt = JStr ''certifiedSenderPhoto'' then
        (let r = relay throws cbs certifiedSenderPhoto CertifiedSenderPhoto (js_get d ''photo'')
         in (fst r, w, snd r))
      else if mt = JStr ''createdDocument'' then
        (let r = relay throws cbs createdDocument CreatedDocument
                   (JObj [(''documentKey'', js_get d ''documentKey''),
                          (''documentUrl'', js_get d ''documentUrl'')])
         in (fst r, w, snd r))
      else if mt = JStr ''createdBiolink'' then
        (let r = relay throws cbs createdBiolink CreatedBiolink
                   (JObj [(''biolinkKey'', js_get d ''biolinkKey''),
                          (''biolinkUrl'', js_get d ''biolinkUrl'')])
         in (fst r, w, snd r))
      else if mt = JStr ''error'' then
        (let r = error_case throws cbs d in (fst r, w, snd r))
      else (None, w, [ConsoleLog (NotHandled d)]))"

text \<open>
  Lines 181 to 188: a payload that is a string goes through \<^verbatim>\<open>JSON.parse\<close>; when that
  raises, the error is logged and the payload stays the string.
\<close>

definition parse_if_string :: "platform \<Rightarrow> jsval \<Rightarrow> jsval \<times> effect list" where
  "parse_if_string p d =
     (case d of
        JStr s \<Rightarrow>
          (case JSON_parse p s of
             Some v \<Rightarrow> (v, [])
           | None \<Rightarrow> (d, [ConsoleError ParseFailure]))
      | _ \<Rightarrow> (d, []))"

text \<open>
  \<^verbatim>\<open>_handleMessage(event)\<close>. Reading \<^verbatim>\<open>this.iframe.contentWindow\<close> with
  \<^verbatim>\<open>this.iframe\<close> null, and reading \<^verbatim>\<open>data.source\<close> or \<^verbatim>\<open>data.messageType\<close> with
  \<^verbatim>\<open>data\<close> null or undefined, raise a TypeError that nothing in the handler catches.
\<close>

definition handleMessage :: "platform \<Rightarrow> (nat \<Rightarrow> jsval \<Rightarrow> bool) \<Rightarrow> controller \<Rightarrow> world \<Rightarrow> message_event \<Rightarrow> js_error option \<times> world \<times> effect list" where
  "handleMessage p throws ctl w ev =
     (case ev_source ev of
        None \<Rightarrow> (None, w, [])
      | Some s \<Rightarrow>
          (case iframe ctl of
             None \<Rightarrow> (Some TypeError, w, [])
           | Some h \<Rightarrow>
               if Some s \<noteq> contentWindow p w then (None, w, [])
               else if nullish (ev_data ev) then (Some TypeError, w, [])
               else if js_get (ev_data ev) ''source'' \<noteq> JStr ''biolock'' then (None, w, [])
               else
                 (let parsed = parse_if_string p (ev_data ev) in
                  if nullish (fst parsed) then (Some TypeError, w, snd parsed)
                  else
                    (let r = dispatch p throws (callbacks ctl) w (fst parsed)
                     in (fst r, fst (snd r), snd parsed @ snd (snd r))))))"

text \<open>
  The window delivers a \<^verbatim>\<open>message\<close> event to the handler only while the handler is
  registered.
\<close>

definition deliver :: "platform \<Rightarrow> (nat \<Rightarrow> jsval \<Rightarrow> bool) \<Rightarrow> controller \<Rightarrow> world \<Rightarrow> message_event \<Rightarrow> js_error option \<times> world \<times> effect list" where
  "deliver p throws ctl w ev =
     (if listening w then handleMessage p throws ctl w ev else (None, w, []))"

subsection \<open>Outbound senders and teardown\<close>

definition addJsonToDocument :: "platform \<Rightarrow> controller \<Rightarrow> world \<Rightarrow> jsval \<Rightarrow> js_error option \<times> effect list" where
  "addJsonToDocument p ctl w json =
     (case iframe ctl of
        None \<Rightarrow> (None, [])
      | Some h \<Rightarrow>
          (case contentWindow p w of
             None \<Rightarrow> (None, [])
           | Some win \<Rightarrow>
               (None, [PostMessage win
                         (JObj [(''source'', JStr ''parent''),
                                (''messageType'', JStr ''addJsonToDocument''),
                                (''json'', json)])])))"

definition setSenderPhotosFiles :: "platform \<Rightarrow> controller \<Rightarrow> world \<Rightarrow> jsval \<Rightarrow> js_error option \<times> effect list" where
  "setSenderPhotosFiles p ctl w photosFiles =
     (case iframe ctl of
        None \<Rightarrow> (None, [])
      | Some h \<Rightarrow>
          (case contentWindow p w of
             None \<Rightarrow> (None, [])
           | Some win \<Rightarrow>
               (None, [PostMessage win
                         (JObj [(''source'', JStr ''parent''),
                                (''messageType'', JStr ''setSenderPhotosFiles''),
                                (''photosFiles'', photosFiles)])])))"

text \<open>\<^verbatim>\<open>destroy()\<close>\<close>

definition destroy :: "controller \<Rightarrow> world \<Rightarrow> controller \<times> world" where
  "destroy ctl w =
     (ctl \<lparr> iframe := None, containerElement := None, options := JNull, callbacks := None \<rparr>,
      w \<lparr> listening := False,
          parentNode := (if iframe ctl \<noteq> None \<and> parentNode w FrameNode \<noteq> None
                         then (parentNode w) (FrameNode := None)
                         else parentNode w) \<rparr>)"

subsection \<open>Notions the properties speak of\<close>

text \<open>
  An event passes the two guards of lines 172 to 178: it has a source, the source is the
  window of the controller's frame, and the payload's \<^verbatim>\<open>source\<close> field is the tag
  \<^verbatim>\<open>'biolock'\<close>.
\<close>

definition accepted :: "platform \<Rightarrow> controller \<Rightarrow> world \<Rightarrow> message_event \<Rightarrow> bool" where
  "accepted p ctl w ev =
     (ev_source ev \<noteq> None \<and> iframe ctl \<noteq> None \<and> ev_source ev = contentWindow p w
      \<and> js_get (ev_data ev) ''source'' = JStr ''biolock'')"

text \<open>The entry of the callback table that a slot names.\<close>

fun slot_value :: "callback_table \<Rightarrow> slot \<Rightarrow> jsval" where
  "slot_value t PageLoaded = pageLoaded t"
| "slot_value t CreatedDocument = createdDocument t"
| "slot_value t CreatedBiolink = createdBiolink t"
| "slot_value t BiolinkNotCreated = biolinkNotCreated t"
| "slot_value t DocumentDelivery = documentDelivery t"
| "slot_value t ErrorSlot = error t"
| "slot_value t DocumentFilesAutoDownloaded = documentFilesAutoDownloaded t"
| "slot_value t CertifiedSenderPhoto = certifiedSenderPhoto t"
| "slot_value t DocumentAttributes = documentAttributes t"
| "slot_value t JsonToParent = jsonToParent t"
| "slot_value t DocumentNotFound = documentNotFound t"

text \<open>
  The specification's wording of the last error rule, for comparison with the code:
  "whichever of error, message, full payload is present, in that preference order",
  where a field is present when the payload has it.
\<close>

definition first_present :: "jsval \<Rightarrow> jsval" where
  "first_present d =
     (case map_of (fields_of d) ''error'' of
        Some v \<Rightarrow> v
      | None \<Rightarrow> (case map_of (fields_of d) ''message'' of Some v \<Rightarrow> v | None \<Rightarrow> d))"

subsection \<open>A concrete page\<close>

text \<open>
  A host page at \<^verbatim>\<open>https://example.com\<close> whose element 7, its only
  \<^verbatim>\<open>HTMLElement\<close>, answers to the selector \<^verbatim>\<open>#biolock-container\<close> and has one child, and a controller built on it for the
  download page with three callbacks, of which the generic error callback (function 2)
  always throws.
\<close>

definition demo_json :: string where
  \<open>demo_json = ''{"source":"biolock","messageType":"pageLoaded","page":"download"}''\<close>

definition demo_message :: jsval where
  "demo_message =
     JObj [(''source'', JStr ''biolock''), (''messageType'', JStr ''pageLoaded''),
           (''page'', JStr ''download'')]"

definition demo_platform :: platform where
  "demo_platform =
     \<lparr> location_origin = ''https://example.com'',
       querySelector = (\<lambda>s. if s = ''#biolock-container'' then QElem 7 else QNull),
       is_connected = (\<lambda>e. True),
       is_HTMLElement = (\<lambda>e. e = 7),
       JSON_parse = (\<lambda>s. if s = demo_json then Some demo_message else None),
       string_is_NaN = (\<lambda>s. s \<noteq> ''450''),
       valid_height = (\<lambda>s. s = ''450px''),
       render = (\<lambda>v. case v of JNum n \<Rightarrow> (if n = 450 then ''450'' else ''0'')
                              | _ \<Rightarrow> ''[object Object]'') \<rparr>"

definition demo_page :: world where
  "demo_page =
     \<lparr> parentNode = (\<lambda>n. if n = PageNode 5 then Some 7 else None),
       frame_el = None,
       listening = False \<rparr>"

definition demo_options :: jsval where
  "demo_options =
     JObj [(''container'', JStr ''#biolock-container''), (''page'', JStr ''download''),
           (''document_key'', JStr ''abc123''), (''onPageLoaded'', JFun 1),
           (''onError'', JFun 2), (''onDocumentNotFound'', JFun 3)]"

definition demo_callbacks :: callback_table where
  "demo_callbacks =
     \<lparr> pageLoaded = JFun 1, createdDocument = JNull, createdBiolink = JNull,
       biolinkNotCreated = JNull, documentDelivery = JNull, error = JFun 2,
       documentFilesAutoDownloaded = JNull, certifiedSenderPhoto = JNull,
       documentAttributes = JNull, jsonToParent = JNull, documentNotFound = JFun 3 \<rparr>"

definition demo_controller :: controller where
  "demo_controller =
     \<lparr> containerElement = Some 7, options = demo_options,
       callbacks = Some demo_callbacks, iframe = Some FrameHandle \<rparr>"

text \<open>The same controller with only the generic error callback registered.\<close>

definition plain_callbacks :: callback_table where
  "plain_callbacks = demo_callbacks \<lparr> pageLoaded := JNull, documentNotFound := JNull \<rparr>"

definition plain_controller :: controller where
  "plain_controller = demo_controller \<lparr> callbacks := Some plain_callbacks \<rparr>"

definition demo_frame :: iframe_el where
  "demo_frame =
     \<lparr> src = ''https://biolock.ai/d?display_mode=reduced&container=%23biolock-container&page=download&document_key=abc123abc123'',
       style_text = [], style_display = ''none'', style_height = None, allow = ''camera'',
       attributes = [(''allowfullscreen'', ''true''), (''scrolling'', ''no'')] \<rparr>"

definition demo_world :: world where
  "demo_world =
     \<lparr> parentNode = (\<lambda>n. if n = FrameNode then Some 7 else None),
       frame_el = Some demo_frame,
       listening = True \<rparr>"

definition demo_throws :: "nat \<Rightarrow> jsval \<Rightarrow> bool" where
  "demo_throws f v = (f = 2)"

definition from_frame :: "jsval \<Rightarrow> message_event" where
  "from_frame d = \<lparr> ev_source = Some FrameWindow, ev_data = d \<rparr>"

section \<open>Lemmas on the URL parameters\<close>

lemma params_set_fresh: "k \<notin> fst ` set ps \<Longrightarrow> params_set ps k v = ps @ [(k, v)]"
  by (induction ps) auto

lemma filter_other_names: "k \<notin> fst ` set ps \<Longrightarrow> filter (\<lambda>q. fst q \<noteq> k) ps = ps"
  by (induction ps) auto

lemma display_mode_not_on: "\<not> starts_with_on ''display_mode''"
  by (simp add: starts_with_on_def)

lemma fold_add_param:
  "distinct (map fst fs) \<Longrightarrow> fst ` set fs \<inter> fst ` set rest = {} \<Longrightarrow>
   ''display_mode'' \<notin> fst ` set rest \<Longrightarrow>
   fold (add_param p) fs ((''display_mode'', d) # rest) =
     (''display_mode'', (case map_of fs ''display_mode'' of Some v \<Rightarrow> to_string p v | None \<Rightarrow> d))
     # rest @ map (\<lambda>f. (fst f, to_string p (snd f)))
                (filter (\<lambda>f. \<not> starts_with_on (fst f) \<and> fst f \<noteq> ''display_mode'') fs)"
proof (induction fs arbitrary: d rest)
  case Nil
  then show ?case by simp
next
  case (Cons f fs)
  obtain k v where f: "f = (k, v)" by (cases f)
  have dist: "distinct (map fst fs)" and knew: "k \<notin> fst ` set fs"
    using Cons.prems(1) f by auto
  have disj: "fst ` set fs \<inter> fst ` set rest = {}" and krest: "k \<notin> fst ` set rest"
    using Cons.prems(2) f by auto
  show ?case
  proof (cases "starts_with_on k")
    case True
    then have kd: "k \<noteq> ''display_mode''" using display_mode_not_on by auto
    have "fold (add_param p) (f # fs) ((''display_mode'', d) # rest)
            = fold (add_param p) fs ((''display_mode'', d) # rest)"
      using True f by (simp add: add_param_def)
    also note Cons.IH [OF dist disj Cons.prems(3)]
    finally show ?thesis using True kd f by simp
  next
    case False
    show ?thesis
    proof (cases "k = ''display_mode''")
      case True
      have none: "map_of fs ''display_mode'' = None"
        using knew True by (simp add: map_of_eq_None_iff)
      have "fold (add_param p) (f # fs) ((''display_mode'', d) # rest)
              = fold (add_param p) fs ((''display_mode'', to_string p v) # rest)"
        using False True f Cons.prems(3) by (simp add: add_param_def filter_other_names)
      also note Cons.IH [OF dist disj Cons.prems(3)]
      finally show ?thesis using True f none by simp
    next
      case kd: False
      have disj': "fst ` set fs \<inter> fst ` set (rest @ [(k, to_string p v)]) = {}"
        using disj knew by auto
      have dm': "''display_mode'' \<notin> fst ` set (rest @ [(k, to_string p v)])"
        using Cons.prems(3) kd by auto
      have "fold (add_param p) (f # fs) ((''display_mode'', d) # rest)
              = fold (add_param p) fs ((''display_mode'', d) # (rest @ [(k, to_string p v)]))"
        using False kd f krest by (simp add: add_param_def params_set_fresh)
      also note Cons.IH [OF dist disj' dm']
      finally show ?thesis using False kd f by simp
    qed
  qed
qed

lemma params_toString_Cons:
  "params_toString (q # qs) = param_text q @ concat (map (\<lambda>r. ''&'' @ param_text r) qs)"
  by (induction qs arbitrary: q) auto

lemma params_set_nonempty: "params_set ps k v \<noteq> []"
  by (cases ps) (auto split: if_splits)

lemma fold_add_param_nonempty: "ps \<noteq> [] \<Longrightarrow> fold (add_param p) fs ps \<noteq> []"
  by (induction fs arbitrary: ps) (auto simp: add_param_def params_set_nonempty)

lemma param_text_nonempty: "param_text q \<noteq> []"
  by (simp add: param_text_def)

lemma params_toString_nonempty: "ps \<noteq> [] \<Longrightarrow> params_toString ps \<noteq> []"
  by (cases ps) (auto simp: params_toString_Cons param_text_nonempty)

lemma known_origin_no_slash: "s \<in> set known_origins \<Longrightarrow> strip_trailing_slash s = s"
  by (auto simp: known_origins_def strip_trailing_slash_def)

lemma buildIframeUrl_shape:
  "fst (buildIframeUrl p fs) =
     (if location_origin p \<in> set known_origins then location_origin p else ''https://biolock.ai'')
     @ ''/''
     @ (if js_get (JObj fs) ''page'' = JStr ''upload'' then ''upload''
        else if js_get (JObj fs) ''page'' = JStr ''download'' then ''d''
        else if js_get (JObj fs) ''page'' = JStr ''createBiolink''
              \<or> js_get (JObj fs) ''page'' = JStr ''create-biolink'' then ''create-biolink''
        else [])
     @ ''?'' @ params_toString (fold (add_param p) fs [(''display_mode'', ''reduced'')])
     @ (if truthy (js_get (JObj fs) ''document_key'')
        then to_string p (js_get (JObj fs) ''document_key'') else [])"
proof -
  have q: "params_toString (fold (add_param p) fs [(''display_mode'', ''reduced'')]) \<noteq> []"
    by (simp add: params_toString_nonempty fold_add_param_nonempty)
  have b: "strip_trailing_slash
             (if location_origin p \<in> set known_origins then location_origin p else ''https://biolock.ai'')
           = (if location_origin p \<in> set known_origins then location_origin p else ''https://biolock.ai'')"
    by (simp add: known_origin_no_slash) (simp add: strip_trailing_slash_def)
  show ?thesis
    unfolding buildIframeUrl_def Let_def fst_conv
    using q b
    by (simp add: allowedPages_def strip_leading_slash_def)
qed

section \<open>The concrete page is what the constructor builds\<close>

lemma demo_construct:
  "construct demo_platform demo_page demo_options = (Inr demo_controller, demo_world, [])"
proof -
  have m: "mount 7 (\<lambda>n. if n = PageNode 5 then Some 7 else None)
             = (\<lambda>n. if n = FrameNode then Some 7 else None)"
    by (auto simp: fun_eq_iff mount_def)
  have cb: "make_callbacks demo_options = demo_callbacks"
    by (simp add: make_callbacks_def demo_options_def demo_callbacks_def js_or_def)
  have b: "buildIframeUrl demo_platform (fields_of demo_options) = (src demo_frame, [])"
    by (simp add: demo_options_def fields_of_def demo_frame_def demo_platform_def
        buildIframeUrl_def known_origins_def allowedPages_def add_param_def starts_with_on_def
        strip_trailing_slash_def strip_leading_slash_def param_text_def urlencode_def
        encode_byte_def unreserved_def hex_digit_def Let_def)
  have r: "resolve_container demo_platform (js_get demo_options ''container'') = Inr 7"
    by (simp add: resolve_container_def demo_options_def demo_platform_def)
  have t: "truthy demo_options" "truthy (js_get demo_options ''container'')"
      "truthy (js_get demo_options ''page'')" "js_get demo_options ''style'' = JUndefined"
    by (simp_all add: demo_options_def)
  show ?thesis
    unfolding construct_def Let_def
    by (simp add: t r b cb m js_or_def) (simp add: demo_controller_def demo_world_def demo_page_def m demo_frame_def)
qed

section \<open>Properties of the URL\<close>

lemmas url_eval =
  buildIframeUrl_def known_origins_def allowedPages_def add_param_def starts_with_on_def
  strip_trailing_slash_def strip_leading_slash_def param_text_def urlencode_def
  encode_byte_def unreserved_def hex_digit_def Let_def demo_platform_def

lemma buildIframeUrl_query:
  assumes "distinct (map fst fs)"
  shows "fst (buildIframeUrl p fs) =
     (if location_origin p \<in> set known_origins then location_origin p else ''https://biolock.ai'')
     @ ''/''
     @ (if js_get (JObj fs) ''page'' = JStr ''upload'' then ''upload''
        else if js_get (JObj fs) ''page'' = JStr ''download'' then ''d''
        else if js_get (JObj fs) ''page'' = JStr ''createBiolink''
              \<or> js_get (JObj fs) ''page'' = JStr ''create-biolink'' then ''create-biolink''
        else [])
     @ ''?'' @ ''display_mode=''
     @ urlencode (case map_of fs ''display_mode'' of Some v \<Rightarrow> to_string p v | None \<Rightarrow> ''reduced'')
     @ concat (map (\<lambda>f. ''&'' @ urlencode (fst f) @ ''='' @ urlencode (to_string p (snd f)))
                (filter (\<lambda>f. \<not> starts_with_on (fst f) \<and> fst f \<noteq> ''display_mode'') fs))
     @ (if truthy (js_get (JObj fs) ''document_key'')
        then to_string p (js_get (JObj fs) ''document_key'') else [])"
proof -
  have dm: "urlencode ''display_mode'' = ''display_mode''"
    by (simp add: urlencode_def encode_byte_def unreserved_def)
  have ps: "fold (add_param p) fs [(''display_mode'', ''reduced'')] =
      (''display_mode'', (case map_of fs ''display_mode'' of Some v \<Rightarrow> to_string p v | None \<Rightarrow> ''reduced''))
      # map (\<lambda>f. (fst f, to_string p (snd f)))
            (filter (\<lambda>f. \<not> starts_with_on (fst f) \<and> fst f \<noteq> ''display_mode'') fs)"
    using fold_add_param [OF assms, of "[]" p "''reduced''"] by simp
  have qs: "params_toString (fold (add_param p) fs [(''display_mode'', ''reduced'')]) =
      ''display_mode=''
      @ urlencode (case map_of fs ''display_mode'' of Some v \<Rightarrow> to_string p v | None \<Rightarrow> ''reduced'')
      @ concat (map (\<lambda>f. ''&'' @ urlencode (fst f) @ ''='' @ urlencode (to_string p (snd f)))
                 (filter (\<lambda>f. \<not> starts_with_on (fst f) \<and> fst f \<noteq> ''display_mode'') fs))"
    unfolding ps params_toString_Cons
    by (simp add: param_text_def dm comp_def)
  show ?thesis
    unfolding buildIframeUrl_shape qs by simp
qed

text \<open>
  C5 (as amended). For options with distinct field names, the URL is the origin and page
  segment, a question mark, the parameter \<open>display_mode\<close> (whose value is \<open>reduced\<close>, or the
  value of the options' own \<open>display_mode\<close> field when they have one), then every other
  field whose name does not start with \<open>on\<close>, URL-encoded and in the order of the fields,
  and last the document key as it is, with no separator, when it is truthy.
\<close>

theorem query_string_of_options:
  assumes "distinct (map fst fs)"
  shows "fst (buildIframeUrl p fs) =
     (if location_origin p \<in> set known_origins then location_origin p else ''https://biolock.ai'')
     @ ''/''
     @ (if js_get (JObj fs) ''page'' = JStr ''upload'' then ''upload''
        else if js_get (JObj fs) ''page'' = JStr ''download'' then ''d''
        else if js_get (JObj fs) ''page'' = JStr ''createBiolink''
              \<or> js_get (JObj fs) ''page'' = JStr ''create-biolink'' then ''create-biolink''
        else [])
     @ ''?'' @ ''display_mode=''
     @ urlencode (case map_of fs ''display_mode'' of Some v \<Rightarrow> to_string p v | None \<Rightarrow> ''reduced'')
     @ concat (map (\<lambda>f. ''&'' @ urlencode (fst f) @ ''='' @ urlencode (to_string p (snd f)))
                (filter (\<lambda>f. \<not> starts_with_on (fst f) \<and> fst f \<noteq> ''display_mode'') fs))
     @ (if truthy (js_get (JObj fs) ''document_key'')
        then to_string p (js_get (JObj fs) ''document_key'') else [])"
  using assms by (rule buildIframeUrl_query)

text \<open>The rule at a download configuration with a callback, a boolean and a key.\<close>

theorem query_string_of_options_witness:
  "fst (buildIframeUrl demo_platform
          [(''container'', JStr ''#c''), (''page'', JStr ''download''), (''onError'', JFun 2),
           (''allow_files'', JBool False), (''document_key'', JStr ''a/b c'')])
   = ''https://biolock.ai/d?display_mode=reduced&container=%23c&page=download&allow_files=false&document_key=a%2Fb+ca/b c''"
  using query_string_of_options
    [of "[(''container'', JStr ''#c''), (''page'', JStr ''download''), (''onError'', JFun 2),
          (''allow_files'', JBool False), (''document_key'', JStr ''a/b c'')]" demo_platform]
  by (simp add: url_eval)

text \<open>
  C5 as stated fails when the options have a field named \<open>display_mode\<close>: the fixed flag
  \<open>display_mode=reduced\<close> is not in the URL, the field's value has taken its place.
\<close>

theorem display_mode_field_replaces_flag:
  "fst (buildIframeUrl demo_platform
          [(''container'', JStr ''#c''), (''page'', JStr ''upload''), (''display_mode'', JStr ''full'')])
   = ''https://biolock.ai/upload?display_mode=full&container=%23c&page=upload''"
  by (simp add: url_eval)

text \<open>
  What the code computes: the URL starts with the page's origin when it is one of the five
  known origins and with \<^verbatim>\<open>https://biolock.ai\<close> otherwise; the path segment is \<open>upload\<close>
  for \<open>upload\<close>, \<open>d\<close> for \<open>download\<close>, \<open>create-biolink\<close> for both \<open>createBiolink\<close> and
  \<open>create-biolink\<close>, and empty (the root path) for every other selector. The unknown-page
  error is logged for every selector other than the three entries of \<open>allowedPages\<close>.
\<close>

lemma origin_and_page_segment:
  "(\<exists>q. fst (buildIframeUrl p fs) =
      (if location_origin p \<in> set [''http://127.0.0.1:3000'', ''http://localhost:3000'',
            ''http://localhost:8000'', ''https://dev.biolock.ai'', ''https://biolock.ai'']
       then location_origin p else ''https://biolock.ai'')
      @ ''/''
      @ (if js_get (JObj fs) ''page'' = JStr ''upload'' then ''upload''
         else if js_get (JObj fs) ''page'' = JStr ''download'' then ''d''
         else if js_get (JObj fs) ''page'' = JStr ''createBiolink''
               \<or> js_get (JObj fs) ''page'' = JStr ''create-biolink'' then ''create-biolink''
         else [])
      @ ''?'' @ q)
   \<and> snd (buildIframeUrl p fs) =
      (if js_get (JObj fs) ''page'' = JStr ''upload'' \<or> js_get (JObj fs) ''page'' = JStr ''download''
          \<or> js_get (JObj fs) ''page'' = JStr ''create-biolink''
       then [] else [ConsoleError (UnknownPage (js_get (JObj fs) ''page''))])"
proof
  have k: "set known_origins = set [''http://127.0.0.1:3000'', ''http://localhost:3000'',
            ''http://localhost:8000'', ''https://dev.biolock.ai'', ''https://biolock.ai'']"
    by (simp add: known_origins_def)
  show "\<exists>q. fst (buildIframeUrl p fs) =
      (if location_origin p \<in> set [''http://127.0.0.1:3000'', ''http://localhost:3000'',
            ''http://localhost:8000'', ''https://dev.biolock.ai'', ''https://biolock.ai'']
       then location_origin p else ''https://biolock.ai'')
      @ ''/''
      @ (if js_get (JObj fs) ''page'' = JStr ''upload'' then ''upload''
         else if js_get (JObj fs) ''page'' = JStr ''download'' then ''d''
         else if js_get (JObj fs) ''page'' = JStr ''createBiolink''
               \<or> js_get (JObj fs) ''page'' = JStr ''create-biolink'' then ''create-biolink''
         else [])
      @ ''?'' @ q"
    unfolding buildIframeUrl_shape k [symmetric] by blast
  show "snd (buildIframeUrl p fs) =
      (if js_get (JObj fs) ''page'' = JStr ''upload'' \<or> js_get (JObj fs) ''page'' = JStr ''download''
          \<or> js_get (JObj fs) ''page'' = JStr ''create-biolink''
       then [] else [ConsoleError (UnknownPage (js_get (JObj fs) ''page''))])"
    by (simp add: buildIframeUrl_def Let_def allowedPages_def)
qed

text \<open>
  C6. The list \<open>allowedPages\<close> of line 129 holds the path segment \<open>create-biolink\<close> where
  the documented selector \<open>createBiolink\<close> belongs. So the selector \<open>create-biolink\<close>,
  which is none of \<open>upload\<close>, \<open>download\<close>, \<open>createBiolink\<close>, does not get the root path
  and logs no warning; and the documented selector \<open>createBiolink\<close> gets its segment
  \<open>create-biolink\<close> together with the unknown-page error that announces the root path.
\<close>

theorem hyphenated_selector_is_not_root:
  "fst (buildIframeUrl demo_platform [(''container'', JStr ''#c''), (''page'', JStr ''create-biolink'')])
     = ''https://biolock.ai/create-biolink?display_mode=reduced&container=%23c&page=create-biolink''
   \<and> snd (buildIframeUrl demo_platform [(''container'', JStr ''#c''), (''page'', JStr ''create-biolink'')])
     = []
   \<and> fst (buildIframeUrl demo_platform [(''container'', JStr ''#c''), (''page'', JStr ''createBiolink'')])
     = ''https://biolock.ai/create-biolink?display_mode=reduced&container=%23c&page=createBiolink''
   \<and> snd (buildIframeUrl demo_platform [(''container'', JStr ''#c''), (''page'', JStr ''createBiolink'')])
     = [ConsoleError (UnknownPage (JStr ''createBiolink''))]"
  by (simp add: url_eval)

lemma concat_amp_head:
  "concat (map (\<lambda>f. ''&'' @ g f) ys) = [] \<or> hd (concat (map (\<lambda>f. ''&'' @ g f) ys)) = CHR ''&''"
  by (cases ys) auto

text \<open>
  C10 (as amended). When the options (with distinct field names) have a document key that
  is a string or any other truthy value (read as its string conversion), the URL holds it
  twice:
  inside the query string as the parameter \<open>document_key\<close> with the URL-encoded key as
  its value, and raw at the very end of the URL, straight after the query string.
\<close>

theorem document_key_occurs_twice:
  assumes "distinct (map fst fs)" and "map_of fs ''document_key'' = Some v"
    and "(\<exists>k. v = JStr k) \<or> truthy v"
  shows "\<exists>front rest.
           fst (buildIframeUrl p fs)
             = front @ ''&document_key='' @ urlencode (to_string p v) @ rest @ to_string p v
         \<and> CHR ''?'' \<in> set front
         \<and> (rest = [] \<or> hd rest = CHR ''&'')"
proof -
  let ?keep = "\<lambda>f. \<not> starts_with_on (fst f) \<and> fst f \<noteq> ''display_mode''"
  let ?g = "\<lambda>f. urlencode (fst f) @ ''='' @ urlencode (to_string p (snd f))"
  have mem: "(''document_key'', v) \<in> set (filter ?keep fs)"
    using map_of_SomeD [OF assms(2)] by (simp add: starts_with_on_def)
  then obtain xs ys where split: "filter ?keep fs = xs @ (''document_key'', v) # ys"
    by (auto dest: split_list)
  have dk: "urlencode ''document_key'' = ''document_key''"
    by (simp add: urlencode_def encode_byte_def unreserved_def)
  have suffix: "(if truthy (js_get (JObj fs) ''document_key'')
                 then to_string p (js_get (JObj fs) ''document_key'') else []) = to_string p v"
    using assms(2,3) by auto
  let ?front = "(if location_origin p \<in> set known_origins then location_origin p else ''https://biolock.ai'')
     @ ''/''
     @ (if js_get (JObj fs) ''page'' = JStr ''upload'' then ''upload''
        else if js_get (JObj fs) ''page'' = JStr ''download'' then ''d''
        else if js_get (JObj fs) ''page'' = JStr ''createBiolink''
              \<or> js_get (JObj fs) ''page'' = JStr ''create-biolink'' then ''create-biolink''
        else [])
     @ ''?'' @ ''display_mode=''
     @ urlencode (case map_of fs ''display_mode'' of Some v \<Rightarrow> to_string p v | None \<Rightarrow> ''reduced'')
     @ concat (map (\<lambda>f. ''&'' @ ?g f) xs)"
  let ?rest = "concat (map (\<lambda>f. ''&'' @ ?g f) ys)"
  have "fst (buildIframeUrl p fs)
          = ?front @ ''&document_key='' @ urlencode (to_string p v) @ ?rest @ to_string p v"
    unfolding buildIframeUrl_query [OF assms(1)] suffix split
    by (simp add: dk)
  moreover have "CHR ''?'' \<in> set ?front" by simp
  moreover have "?rest = [] \<or> hd ?rest = CHR ''&''" by (rule concat_amp_head)
  ultimately show ?thesis by blast
qed

text \<open>
  The rule at a key with a slash and a space, which the parameter holds encoded and the
  end of the URL holds raw.
\<close>

theorem document_key_occurs_twice_witness:
  "(\<exists>front rest.
      fst (buildIframeUrl demo_platform
             [(''container'', JStr ''#c''), (''page'', JStr ''download''),
              (''document_key'', JStr ''a/b c''), (''lng'', JStr ''fr'')])
        = front @ ''&document_key=a%2Fb+c'' @ rest @ ''a/b c''
    \<and> CHR ''?'' \<in> set front
    \<and> (rest = [] \<or> hd rest = CHR ''&''))
   \<and> fst (buildIframeUrl demo_platform
             [(''container'', JStr ''#c''), (''page'', JStr ''download''),
              (''document_key'', JStr ''a/b c''), (''lng'', JStr ''fr'')])
       = ''https://biolock.ai/d?display_mode=reduced&container=%23c&page=download&document_key=a%2Fb+c&lng=fra/b c''"
proof -
  have enc: "urlencode ''a/b c'' = ''a%2Fb+c''"
    by (simp add: urlencode_def encode_byte_def unreserved_def hex_digit_def)
  have "\<exists>front rest.
      fst (buildIframeUrl demo_platform
             [(''container'', JStr ''#c''), (''page'', JStr ''download''),
              (''document_key'', JStr ''a/b c''), (''lng'', JStr ''fr'')])
        = front @ ''&document_key=a%2Fb+c'' @ rest @ ''a/b c''
    \<and> CHR ''?'' \<in> set front
    \<and> (rest = [] \<or> hd rest = CHR ''&'')"
    using document_key_occurs_twice
      [of "[(''container'', JStr ''#c''), (''page'', JStr ''download''),
            (''document_key'', JStr ''a/b c''), (''lng'', JStr ''fr'')]"
          "JStr ''a/b c''" demo_platform]
    by (simp add: enc)
  moreover have "fst (buildIframeUrl demo_platform
             [(''container'', JStr ''#c''), (''page'', JStr ''download''),
              (''document_key'', JStr ''a/b c''), (''lng'', JStr ''fr'')])
       = ''https://biolock.ai/d?display_mode=reduced&container=%23c&page=download&document_key=a%2Fb+c&lng=fra/b c''"
    by (simp add: url_eval)
  ultimately show ?thesis by blast
qed

text \<open>
  C10 as stated fails for a document key that is \<^verbatim>\<open>null\<close>: the field is there and is set
  as a parameter, but line 158 tests its truthiness and nothing is appended, so the key
  occurs once.
\<close>

theorem null_document_key_occurs_once:
  "fst (buildIframeUrl demo_platform
          [(''container'', JStr ''#c''), (''page'', JStr ''download''), (''document_key'', JNull)])
   = ''https://biolock.ai/d?display_mode=reduced&container=%23c&page=download&document_key=null''"
  by (simp add: url_eval)

section \<open>Properties of the message handler\<close>

lemmas demo_eval =
  accepted_def from_frame_def demo_controller_def demo_world_def demo_platform_def
  demo_message_def demo_callbacks_def demo_throws_def contentWindow_def

lemma js_get_JStr_obj: "js_get d k = JStr s \<Longrightarrow> \<exists>fs. d = JObj fs"
  by (cases d) auto

lemma accepted_dispatch:
  assumes "accepted p ctl w ev"
  shows "handleMessage p throws ctl w ev = dispatch p throws (callbacks ctl) w (ev_data ev)"
proof -
  from assms obtain s h where s: "ev_source ev = Some s" and h: "iframe ctl = Some h"
    and cw: "contentWindow p w = Some s" and tag: "js_get (ev_data ev) ''source'' = JStr ''biolock''"
    by (auto simp: accepted_def)
  from tag obtain fs where d: "ev_data ev = JObj fs" by (auto dest: js_get_JStr_obj)
  have pi: "parse_if_string p (ev_data ev) = (ev_data ev, [])"
    by (simp add: d parse_if_string_def)
  show ?thesis
    unfolding handleMessage_def Let_def pi
    using tag by (simp add: s h cw d)
qed

lemma accepted_window: "accepted p ctl w ev \<Longrightarrow> \<exists>win. contentWindow p w = Some win"
  by (auto simp: accepted_def)

lemma not_accepted_no_effect:
  "\<not> accepted p ctl w ev \<Longrightarrow> snd (handleMessage p throws ctl w ev) = (w, [])"
  by (auto simp: accepted_def handleMessage_def Let_def split: option.splits)

lemma not_accepted_returns:
  "\<not> accepted p ctl w ev \<Longrightarrow> iframe ctl \<noteq> None \<Longrightarrow> \<not> nullish (ev_data ev) \<Longrightarrow>
   handleMessage p throws ctl w ev = (None, w, [])"
  by (auto simp: accepted_def handleMessage_def Let_def split: option.splits)

text \<open>
  C7. For an accepted event whose message type is \<open>pageLoaded\<close>: the event came from the
  frame's window; with a function registered as page-loaded callback the handler posts
  one origin-proof message to the frame's window and then calls the callback once with the
  message's page name (logging the exception if the callback throws); with no callback
  registered it only posts the origin-proof message. The handler returns normally and
  the page's state is unchanged.
\<close>

theorem pageLoaded_reply_then_callback:
  assumes "accepted p ctl w ev"
    and "js_get (ev_data ev) ''messageType'' = JStr ''pageLoaded''"
    and "callbacks ctl = Some t"
  shows "ev_source ev = Some FrameWindow
     \<and> (pageLoaded t = JFun f \<longrightarrow>
          handleMessage p throws ctl w ev =
            (None, w,
             [PostMessage FrameWindow originProof, Invoke PageLoaded (js_get (ev_data ev) ''page'')]
             @ (if throws f (js_get (ev_data ev) ''page'') then [ConsoleError CallbackThrew] else [])))
     \<and> (\<not> truthy (pageLoaded t) \<longrightarrow>
          handleMessage p throws ctl w ev = (None, w, [PostMessage FrameWindow originProof]))"
proof -
  have cw: "contentWindow p w = Some FrameWindow" and src: "ev_source ev = Some FrameWindow"
    using assms(1) by (auto simp: accepted_def contentWindow_def split: option.splits if_splits)
  show ?thesis
    unfolding accepted_dispatch [OF assms(1)]
    by (simp add: src dispatch_def assms(2,3) cw relay_def try_call_def)
qed

text \<open>The rule at the demo controller and a page-loaded message from its frame.\<close>

theorem pageLoaded_reply_then_callback_witness:
  "accepted demo_platform demo_controller demo_world (from_frame demo_message)
   \<and> handleMessage demo_platform demo_throws demo_controller demo_world (from_frame demo_message)
       = (None, demo_world,
          [PostMessage FrameWindow originProof, Invoke PageLoaded (JStr ''download'')])
   \<and> accepted demo_platform plain_controller demo_world (from_frame demo_message)
   \<and> handleMessage demo_platform demo_throws plain_controller demo_world (from_frame demo_message)
       = (None, demo_world, [PostMessage FrameWindow originProof])"
proof -
  have a: "accepted demo_platform demo_controller demo_world (from_frame demo_message)"
      "accepted demo_platform plain_controller demo_world (from_frame demo_message)"
    by (simp_all add: demo_eval plain_controller_def)
  have m: "js_get (ev_data (from_frame demo_message)) ''messageType'' = JStr ''pageLoaded''"
    by (simp add: from_frame_def demo_message_def)
  have c: "callbacks demo_controller = Some demo_callbacks"
      "callbacks plain_controller = Some plain_callbacks"
    by (simp_all add: demo_controller_def plain_controller_def)
  show ?thesis
    using a pageLoaded_reply_then_callback [OF a(1) m c(1), of 1 demo_throws]
      pageLoaded_reply_then_callback [OF a(2) m c(2), of 1 demo_throws]
    by (simp add: demo_callbacks_def plain_callbacks_def demo_throws_def from_frame_def
        demo_message_def)
qed

text \<open>
  C1 (as amended). For an accepted event whose message type is \<open>error\<close> the handler returns
  normally and leaves the page's state as it is, and: with error code
  \<open>documentNotFound\<close> and a function registered as not-found callback, that callback alone
  is called, with the payload's \<open>errorMessage\<close>; with that code and no not-found callback,
  the generic error callback is called with \<open>errorMessage\<close>; with error code
  \<open>biolinkNotCreated\<close> and no dedicated callback, the generic error callback is called with
  the whole payload; with any other error code, the generic error callback is called with
  the payload's \<open>error\<close> field if that is truthy, else its \<open>message\<close> field if that is
  truthy, else the whole payload. An exception of the callback is logged.
\<close>

theorem error_dispatch:
  assumes "accepted p ctl w ev"
    and "js_get (ev_data ev) ''messageType'' = JStr ''error''"
    and "callbacks ctl = Some t"
  shows "fst (handleMessage p throws ctl w ev) = None
     \<and> fst (snd (handleMessage p throws ctl w ev)) = w
     \<and> (js_get (ev_data ev) ''errorCode'' = JStr ''documentNotFound'' \<and> documentNotFound t = JFun f \<longrightarrow>
          snd (snd (handleMessage p throws ctl w ev)) =
            Invoke DocumentNotFound (js_get (ev_data ev) ''errorMessage'')
            # (if throws f (js_get (ev_data ev) ''errorMessage'') then [ConsoleError CallbackThrew] else []))
     \<and> (js_get (ev_data ev) ''errorCode'' = JStr ''documentNotFound'' \<and> \<not> truthy (documentNotFound t)
          \<and> error t = JFun g \<longrightarrow>
          snd (snd (handleMessage p throws ctl w ev)) =
            Invoke ErrorSlot (js_get (ev_data ev) ''errorMessage'')
            # (if throws g (js_get (ev_data ev) ''errorMessage'') then [ConsoleError CallbackThrew] else []))
     \<and> (js_get (ev_data ev) ''errorCode'' = JStr ''biolinkNotCreated'' \<and> \<not> truthy (biolinkNotCreated t)
          \<and> error t = JFun g \<longrightarrow>
          snd (snd (handleMessage p throws ctl w ev)) =
            Invoke ErrorSlot (ev_data ev)
            # (if throws g (ev_data ev) then [ConsoleError CallbackThrew] else []))
     \<and> (js_get (ev_data ev) ''errorCode'' \<noteq> JStr ''documentNotFound''
          \<and> js_get (ev_data ev) ''errorCode'' \<noteq> JStr ''biolinkNotCreated'' \<and> error t = JFun g \<longrightarrow>
          snd (snd (handleMessage p throws ctl w ev)) =
            Invoke ErrorSlot
              (if truthy (js_get (ev_data ev) ''error'') then js_get (ev_data ev) ''error''
               else if truthy (js_get (ev_data ev) ''message'') then js_get (ev_data ev) ''message''
               else ev_data ev)
            # (if throws g
                    (if truthy (js_get (ev_data ev) ''error'') then js_get (ev_data ev) ''error''
                     else if truthy (js_get (ev_data ev) ''message'') then js_get (ev_data ev) ''message''
                     else ev_data ev)
               then [ConsoleError CallbackThrew] else []))"
  unfolding accepted_dispatch [OF assms(1)]
  by (simp add: dispatch_def assms(2,3) error_case_def try_call_def js_or_def)


text \<open>
  The rule at the demo controller (not-found callback 3, error callback 2, which throws)
  for a not-found error, a biolink error and an error with a message only, and at the
  controller without a not-found callback for the not-found error.
\<close>

theorem error_dispatch_witness:
  "accepted demo_platform demo_controller demo_world
     (from_frame (JObj [(''source'', JStr ''biolock''), (''messageType'', JStr ''error''),
                        (''errorCode'', JStr ''documentNotFound''), (''errorMessage'', JStr ''gone'')]))
   \<and> snd (snd (handleMessage demo_platform demo_throws demo_controller demo_world
        (from_frame (JObj [(''source'', JStr ''biolock''), (''messageType'', JStr ''error''),
                           (''errorCode'', JStr ''documentNotFound''), (''errorMessage'', JStr ''gone'')]))))
       = [Invoke DocumentNotFound (JStr ''gone'')]
   \<and> snd (snd (handleMessage demo_platform demo_throws plain_controller demo_world
        (from_frame (JObj [(''source'', JStr ''biolock''), (''messageType'', JStr ''error''),
                           (''errorCode'', JStr ''documentNotFound''), (''errorMessage'', JStr ''gone'')]))))
       = [Invoke ErrorSlot (JStr ''gone''), ConsoleError CallbackThrew]
   \<and> snd (snd (handleMessage demo_platform demo_throws demo_controller demo_world
        (from_frame (JObj [(''source'', JStr ''biolock''), (''messageType'', JStr ''error''),
                           (''errorCode'', JStr ''biolinkNotCreated''), (''errorMessage'', JStr ''no'')]))))
       = [Invoke ErrorSlot
            (JObj [(''source'', JStr ''biolock''), (''messageType'', JStr ''error''),
                   (''errorCode'', JStr ''biolinkNotCreated''), (''errorMessage'', JStr ''no'')]),
          ConsoleError CallbackThrew]
   \<and> snd (snd (handleMessage demo_platform demo_throws demo_controller demo_world
        (from_frame (JObj [(''source'', JStr ''biolock''), (''messageType'', JStr ''error''),
                           (''message'', JStr ''boom'')]))))
       = [Invoke ErrorSlot (JStr ''boom''), ConsoleError CallbackThrew]"
proof -
  let ?a = "from_frame (JObj [(''source'', JStr ''biolock''), (''messageType'', JStr ''error''),
              (''errorCode'', JStr ''documentNotFound''), (''errorMessage'', JStr ''gone'')])"
  let ?b = "from_frame (JObj [(''source'', JStr ''biolock''), (''messageType'', JStr ''error''),
              (''errorCode'', JStr ''biolinkNotCreated''), (''errorMessage'', JStr ''no'')])"
  let ?c = "from_frame (JObj [(''source'', JStr ''biolock''), (''messageType'', JStr ''error''),
              (''message'', JStr ''boom'')])"
  have acc: "accepted demo_platform demo_controller demo_world ?a"
      "accepted demo_platform demo_controller demo_world ?b"
      "accepted demo_platform demo_controller demo_world ?c"
      "accepted demo_platform plain_controller demo_world ?a"
    by (simp_all add: demo_eval plain_controller_def)
  have mt: "js_get (ev_data ?a) ''messageType'' = JStr ''error''"
      "js_get (ev_data ?b) ''messageType'' = JStr ''error''"
      "js_get (ev_data ?c) ''messageType'' = JStr ''error''"
    by (simp_all add: from_frame_def)
  have cb: "callbacks demo_controller = Some demo_callbacks"
      "callbacks plain_controller = Some plain_callbacks"
    by (simp_all add: demo_controller_def plain_controller_def)
  show ?thesis
    using acc(1)
      error_dispatch [OF acc(1) mt(1) cb(1), where f = 3 and g = 2 and throws = demo_throws]
      error_dispatch [OF acc(4) mt(1) cb(2), where f = 3 and g = 2 and throws = demo_throws]
      error_dispatch [OF acc(2) mt(2) cb(1), where f = 3 and g = 2 and throws = demo_throws]
      error_dispatch [OF acc(3) mt(3) cb(1), where f = 3 and g = 2 and throws = demo_throws]
    by (simp add: from_frame_def demo_callbacks_def plain_callbacks_def demo_throws_def)
qed

text \<open>
  C1 as stated fails for a payload whose \<open>error\<close> field is present and empty: the field is
  the first one present, yet the callback receives the \<open>message\<close> field.
\<close>

theorem empty_error_field_is_skipped:
  "snd (snd (handleMessage demo_platform (\<lambda>f v. False) demo_controller demo_world
       (from_frame (JObj [(''source'', JStr ''biolock''), (''messageType'', JStr ''error''),
                          (''error'', JStr []), (''message'', JStr ''boom'')]))))
     = [Invoke ErrorSlot (JStr ''boom'')]
   \<and> first_present (JObj [(''source'', JStr ''biolock''), (''messageType'', JStr ''error''),
                          (''error'', JStr []), (''message'', JStr ''boom'')])
     = JStr []"
  by (simp add: handleMessage_def parse_if_string_def dispatch_def error_case_def try_call_def
      js_or_def first_present_def fields_of_def demo_eval)

text \<open>
  C2. An event from the frame's own window whose payload is \<^verbatim>\<open>null\<close> carries no
  provenance tag, and the handler does not return: reading \<^verbatim>\<open>data.source\<close> raises a
  TypeError (no callback runs, nothing is posted and the page's state is unchanged).
  For every other event that fails one of the two guards, \<open>not_accepted_returns\<close> and
  \<open>not_accepted_no_effect\<close> above show that the handler returns with no effect at all.
\<close>

theorem null_payload_raises:
  "handleMessage demo_platform demo_throws demo_controller demo_world (from_frame JNull)
     = (Some TypeError, demo_world, [])"
  by (simp add: handleMessage_def demo_eval)

text \<open>
  A payload that is a string never reaches \<^verbatim>\<open>JSON.parse\<close>: a string has no
  \<^verbatim>\<open>source\<close> property, so the provenance guard of line 176 drops the event, whatever
  the text is and whatever parsing it would give; nothing is logged.
\<close>

lemma string_payload_never_parsed:
  "handleMessage p throws ctl w \<lparr> ev_source = s, ev_data = JStr txt \<rparr>
     = (if s \<noteq> None \<and> iframe ctl = None then Some TypeError else None, w, [])"
  by (simp add: handleMessage_def split: option.splits)

text \<open>
  C3. The serialized page-loaded message, sent from the frame's own window as a string, is
  dropped with no reply, no callback and no log, although \<^verbatim>\<open>JSON.parse\<close> turns it into
  a record that, sent as a record, triggers the reply and the callback.
\<close>

theorem serialized_message_is_dropped:
  "handleMessage demo_platform demo_throws demo_controller demo_world
      \<lparr> ev_source = Some FrameWindow, ev_data = JStr demo_json \<rparr> = (None, demo_world, [])
   \<and> JSON_parse demo_platform demo_json = Some demo_message
   \<and> handleMessage demo_platform demo_throws demo_controller demo_world
      \<lparr> ev_source = Some FrameWindow, ev_data = demo_message \<rparr>
       = (None, demo_world,
          [PostMessage FrameWindow originProof, Invoke PageLoaded (JStr ''download'')])"
proof -
  have "handleMessage demo_platform demo_throws demo_controller demo_world
      \<lparr> ev_source = Some FrameWindow, ev_data = JStr demo_json \<rparr> = (None, demo_world, [])"
    using string_payload_never_parsed
      [of demo_platform demo_throws demo_controller demo_world "Some FrameWindow" demo_json]
    by (simp add: demo_controller_def)
  moreover have "JSON_parse demo_platform demo_json = Some demo_message"
    by (simp add: demo_platform_def)
  moreover have "handleMessage demo_platform demo_throws demo_controller demo_world
      \<lparr> ev_source = Some FrameWindow, ev_data = demo_message \<rparr>
       = (None, demo_world,
          [PostMessage FrameWindow originProof, Invoke PageLoaded (JStr ''download'')])"
    by (simp add: handleMessage_def parse_if_string_def dispatch_def relay_def try_call_def demo_eval)
  ultimately show ?thesis by simp
qed

section \<open>Exceptions of user callbacks\<close>

lemma try_call_filter:
  "filter (\<lambda>e. e \<noteq> ConsoleError CallbackThrew) (try_call throws sl cb arg)
     = try_call (\<lambda>f v. False) sl cb arg"
  by (cases cb) (simp_all add: try_call_def)

lemma try_call_logged:
  "Invoke sl' arg' \<in> set (try_call throws sl cb arg) \<Longrightarrow>
   sl' = sl \<and> arg' = arg
   \<and> (\<exists>f. cb = JFun f \<and> (throws f arg \<longrightarrow> ConsoleError CallbackThrew \<in> set (try_call throws sl cb arg)))"
  by (cases cb) (auto simp: try_call_def split: if_splits)

lemma relay_filter:
  "filter (\<lambda>e. e \<noteq> ConsoleError CallbackThrew) (snd (relay throws (Some t) sel sl arg))
     = snd (relay (\<lambda>f v. False) (Some t) sel sl arg)"
  by (simp add: relay_def try_call_filter)

lemma relay_logged:
  "Invoke sl' arg' \<in> set (snd (relay throws (Some t) sel sl arg)) \<Longrightarrow>
   sl' = sl \<and> arg' = arg
   \<and> (\<exists>f. sel t = JFun f
          \<and> (throws f arg \<longrightarrow> ConsoleError CallbackThrew \<in> set (snd (relay throws (Some t) sel sl arg))))"
  by (auto simp: relay_def split: if_splits dest: try_call_logged)

lemma error_case_filter:
  "filter (\<lambda>e. e \<noteq> ConsoleError CallbackThrew) (snd (error_case throws (Some t) d))
     = snd (error_case (\<lambda>f v. False) (Some t) d)"
  by (simp add: error_case_def try_call_filter)

lemma error_case_logged:
  "Invoke sl' arg' \<in> set (snd (error_case throws (Some t) d)) \<Longrightarrow>
   \<exists>f. slot_value t sl' = JFun f
      \<and> (throws f arg' \<longrightarrow> ConsoleError CallbackThrew \<in> set (snd (error_case throws (Some t) d)))"
  by (auto simp: error_case_def split: if_splits dest!: try_call_logged)

lemma dispatch_returns:
  "contentWindow p w = Some win \<Longrightarrow> fst (dispatch p throws (Some t) w d) = None"
  by (simp add: dispatch_def relay_def error_case_def Let_def)

lemma dispatch_world:
  "fst (snd (dispatch p throws cbs w d)) = fst (snd (dispatch p throws' cbs w d))"
  by (simp add: dispatch_def Let_def split: option.splits)

lemma dispatch_filter:
  "filter (\<lambda>e. e \<noteq> ConsoleError CallbackThrew) (snd (snd (dispatch p throws (Some t) w d)))
     = snd (snd (dispatch p (\<lambda>f v. False) (Some t) w d))"
  by (simp add: dispatch_def Let_def relay_filter error_case_filter split: option.splits)

lemma dispatch_logged:
  "Invoke sl arg \<in> set (snd (snd (dispatch p throws (Some t) w d))) \<Longrightarrow>
   \<exists>f. slot_value t sl = JFun f
      \<and> (throws f arg \<longrightarrow> ConsoleError CallbackThrew \<in> set (snd (snd (dispatch p throws (Some t) w d))))"
  unfolding dispatch_def Let_def
  by (auto split: if_splits option.splits dest!: relay_logged error_case_logged)

text \<open>
  C8. For an accepted event on a controller that holds its callback table, whatever the
  callbacks do: no error leaves the handler; the page's state afterwards is the one a run
  with callbacks that never throw gives; the effects are those of that run plus the log
  entries of the exceptions; and every call of a registered function that throws is
  followed by such a log entry.
\<close>

theorem callback_exception_is_contained:
  assumes "accepted p ctl w ev" and "callbacks ctl = Some t"
  shows "fst (handleMessage p throws ctl w ev) = None
     \<and> fst (snd (handleMessage p throws ctl w ev))
         = fst (snd (handleMessage p (\<lambda>f v. False) ctl w ev))
     \<and> filter (\<lambda>e. e \<noteq> ConsoleError CallbackThrew) (snd (snd (handleMessage p throws ctl w ev)))
         = snd (snd (handleMessage p (\<lambda>f v. False) ctl w ev))
     \<and> (\<forall>sl arg f. Invoke sl arg \<in> set (snd (snd (handleMessage p throws ctl w ev)))
           \<and> slot_value t sl = JFun f \<and> throws f arg
           \<longrightarrow> ConsoleError CallbackThrew \<in> set (snd (snd (handleMessage p throws ctl w ev))))"
proof -
  obtain win where cw: "contentWindow p w = Some win"
    using accepted_window [OF assms(1)] by blast
  have "fst (dispatch p throws (Some t) w (ev_data ev)) = None"
    by (rule dispatch_returns [OF cw])
  moreover have "fst (snd (dispatch p throws (Some t) w (ev_data ev)))
         = fst (snd (dispatch p (\<lambda>f v. False) (Some t) w (ev_data ev)))"
    by (rule dispatch_world)
  moreover note dispatch_filter [of p throws t w "ev_data ev"]
  moreover have "\<forall>sl arg f. Invoke sl arg \<in> set (snd (snd (dispatch p throws (Some t) w (ev_data ev))))
           \<and> slot_value t sl = JFun f \<and> throws f arg
           \<longrightarrow> ConsoleError CallbackThrew \<in> set (snd (snd (dispatch p throws (Some t) w (ev_data ev))))"
    using dispatch_logged [of _ _ p throws t w "ev_data ev"] by fastforce
  ultimately show ?thesis
    unfolding accepted_dispatch [OF assms(1)] assms(2) by blast
qed

text \<open>The rule at the demo controller, whose error callback throws.\<close>

theorem callback_exception_is_contained_witness:
  "accepted demo_platform demo_controller demo_world
     (from_frame (JObj [(''source'', JStr ''biolock''), (''messageType'', JStr ''error''),
                        (''message'', JStr ''boom'')]))
   \<and> slot_value demo_callbacks ErrorSlot = JFun 2 \<and> demo_throws 2 (JStr ''boom'')
   \<and> handleMessage demo_platform demo_throws demo_controller demo_world
       (from_frame (JObj [(''source'', JStr ''biolock''), (''messageType'', JStr ''error''),
                          (''message'', JStr ''boom'')]))
     = (None, demo_world, [Invoke ErrorSlot (JStr ''boom''), ConsoleError CallbackThrew])
   \<and> handleMessage demo_platform (\<lambda>f v. False) demo_controller demo_world
       (from_frame (JObj [(''source'', JStr ''biolock''), (''messageType'', JStr ''error''),
                          (''message'', JStr ''boom'')]))
     = (None, demo_world, [Invoke ErrorSlot (JStr ''boom'')])"
proof -
  let ?e = "from_frame (JObj [(''source'', JStr ''biolock''), (''messageType'', JStr ''error''),
              (''message'', JStr ''boom'')])"
  have acc: "accepted demo_platform demo_controller demo_world ?e"
    by (simp add: demo_eval)
  have cb: "callbacks demo_controller = Some demo_callbacks"
    by (simp add: demo_controller_def)
  have run: "handleMessage demo_platform demo_throws demo_controller demo_world ?e
       = (fst (handleMessage demo_platform demo_throws demo_controller demo_world ?e), demo_world,
          [Invoke ErrorSlot (JStr ''boom''), ConsoleError CallbackThrew])"
    by (simp add: handleMessage_def parse_if_string_def dispatch_def error_case_def try_call_def
        js_or_def demo_eval)
  have quiet: "handleMessage demo_platform (\<lambda>f v. False) demo_controller demo_world ?e
       = (None, demo_world, [Invoke ErrorSlot (JStr ''boom'')])"
    by (simp add: handleMessage_def parse_if_string_def dispatch_def error_case_def try_call_def
        js_or_def demo_eval)
  have "fst (handleMessage demo_platform demo_throws demo_controller demo_world ?e) = None"
    using callback_exception_is_contained [OF acc cb, of demo_throws] by blast
  with run have "handleMessage demo_platform demo_throws demo_controller demo_world ?e
       = (None, demo_world, [Invoke ErrorSlot (JStr ''boom''), ConsoleError CallbackThrew])"
    by simp
  with acc quiet show ?thesis
    by (simp add: demo_callbacks_def demo_throws_def)
qed

section \<open>Construction and teardown\<close>

lemma resolve_container_fails:
  "isl (resolve_container p c) \<longleftrightarrow>
     (\<exists>sel. c = JStr sel \<and> (querySelector p sel = QNull \<or> querySelector p sel = QSyntaxError))
     \<or> (\<exists>e. c = JElem e \<and> \<not> is_HTMLElement p e)
     \<or> ((\<forall>sel. c \<noteq> JStr sel) \<and> (\<forall>e. c \<noteq> JElem e))"
  by (cases c) (auto simp: resolve_container_def split: query_result.splits)

lemma construct_mounts:
  assumes "truthy opts" and "truthy (js_get opts ''container'')" and "truthy (js_get opts ''page'')"
    and "resolve_container p (js_get opts ''container'') = Inr c"
  shows "\<exists>ctl w'. construct p w opts = (Inr ctl, w', snd (buildIframeUrl p (fields_of opts)))
           \<and> containerElement ctl = Some c \<and> iframe ctl = Some FrameHandle
           \<and> callbacks ctl = Some (make_callbacks opts)
           \<and> parentNode w' FrameNode = Some c
           \<and> (\<forall>n. n \<noteq> FrameNode \<longrightarrow> parentNode w' n \<noteq> Some c)
           \<and> map_option src (frame_el w') = Some (fst (buildIframeUrl p (fields_of opts)))
           \<and> map_option style_display (frame_el w') = Some ''none''
           \<and> listening w'"
  using assms by (simp add: construct_def Let_def mount_def)

text \<open>
  C4 (as amended). When the options are missing, or the container is missing (falsy), or
  the page selector is missing (falsy), or the container cannot be resolved (a selector
  that matches nothing or cannot be parsed, an element that is no instance of
  \<^verbatim>\<open>HTMLElement\<close>, or a value that is neither a string nor an element), the constructor
  throws, and the page is as before: nothing is mounted, no listener is registered and
  nothing is logged.
\<close>

theorem construct_rejects:
  assumes "\<not> truthy opts
         \<or> \<not> truthy (js_get opts ''container'')
         \<or> \<not> truthy (js_get opts ''page'')
         \<or> (\<exists>sel. js_get opts ''container'' = JStr sel
                 \<and> (querySelector p sel = QNull \<or> querySelector p sel = QSyntaxError))
         \<or> (\<exists>e. js_get opts ''container'' = JElem e \<and> \<not> is_HTMLElement p e)
         \<or> ((\<forall>sel. js_get opts ''container'' \<noteq> JStr sel) \<and> (\<forall>e. js_get opts ''container'' \<noteq> JElem e))"
  shows "\<exists>e. construct p w opts = (Inl e, w, [])"
proof (cases "\<not> truthy opts \<or> \<not> truthy (js_get opts ''container'') \<or> \<not> truthy (js_get opts ''page'')")
  case True
  then show ?thesis by (simp add: construct_def)
next
  case False
  with assms have "isl (resolve_container p (js_get opts ''container''))"
    unfolding resolve_container_fails by blast
  then obtain e where "resolve_container p (js_get opts ''container'') = Inl e"
    by (cases "resolve_container p (js_get opts ''container'')") auto
  with False show ?thesis by (simp add: construct_def)
qed

text \<open>
  The rule for a selector that matches nothing, for options with no page, for a container
  that is a number, for a container that is an element but no \<^verbatim>\<open>HTMLElement\<close>, and for
  no options at all.
\<close>

theorem construct_rejects_witness:
  "(\<exists>e. construct demo_platform demo_page
           (JObj [(''container'', JStr ''#missing''), (''page'', JStr ''upload'')])
         = (Inl e, demo_page, []))
   \<and> (\<exists>e. construct demo_platform demo_page (JObj [(''container'', JStr ''#biolock-container'')])
         = (Inl e, demo_page, []))
   \<and> (\<exists>e. construct demo_platform demo_page (JObj [(''container'', JNum 5), (''page'', JStr ''upload'')])
         = (Inl e, demo_page, []))
   \<and> (\<exists>e. construct demo_platform demo_page (JObj [(''container'', JElem 9), (''page'', JStr ''upload'')])
         = (Inl e, demo_page, []))
   \<and> (\<exists>e. construct demo_platform demo_page JUndefined = (Inl e, demo_page, []))"
  using construct_rejects
      [of "JObj [(''container'', JStr ''#missing''), (''page'', JStr ''upload'')]" demo_platform demo_page]
    construct_rejects
      [of "JObj [(''container'', JStr ''#biolock-container'')]" demo_platform demo_page]
    construct_rejects
      [of "JObj [(''container'', JNum 5), (''page'', JStr ''upload'')]" demo_platform demo_page]
    construct_rejects
      [of "JObj [(''container'', JElem 9), (''page'', JStr ''upload'')]" demo_platform demo_page]
    construct_rejects [of JUndefined demo_platform demo_page]
  by (simp add: demo_platform_def)

text \<open>
  C4 as stated fails for a page selector that is not one of the recognized values: the
  constructor returns an instance and the frame is mounted in the container, with the
  root path as its URL.
\<close>

theorem unknown_page_still_mounts:
  "fst (construct demo_platform demo_page
         (JObj [(''container'', JStr ''#biolock-container''), (''page'', JStr ''foo'')]))
     = Inr \<lparr> containerElement = Some 7,
             options = JObj [(''container'', JStr ''#biolock-container''), (''page'', JStr ''foo'')],
             callbacks = Some (make_callbacks
                (JObj [(''container'', JStr ''#biolock-container''), (''page'', JStr ''foo'')])),
             iframe = Some FrameHandle \<rparr>
   \<and> parentNode (fst (snd (construct demo_platform demo_page
         (JObj [(''container'', JStr ''#biolock-container''), (''page'', JStr ''foo'')])))) FrameNode
     = Some 7
   \<and> map_option src (frame_el (fst (snd (construct demo_platform demo_page
         (JObj [(''container'', JStr ''#biolock-container''), (''page'', JStr ''foo'')])))))
     = Some ''https://biolock.ai/?display_mode=reduced&container=%23biolock-container&page=foo''"
  by (simp add: construct_def resolve_container_def fields_of_def mount_def demo_page_def url_eval)

text \<open>
  C9. After \<^verbatim>\<open>destroy()\<close> on a controller that holds its frame: the handler is no
  longer registered, so an event delivered to the window runs no callback, posts nothing
  and changes nothing; the frame has no parent, so the anchor does not contain it;
  options, callback table, frame handle and container reference are null; and both
  outbound senders post nothing and raise nothing, whatever the page looks like then.
\<close>

theorem destroy_releases_everything:
  assumes "iframe ctl = Some FrameHandle"
  shows "listening (snd (destroy ctl w)) = False
     \<and> deliver p throws (fst (destroy ctl w)) (snd (destroy ctl w)) ev = (None, snd (destroy ctl w), [])
     \<and> parentNode (snd (destroy ctl w)) FrameNode = None
     \<and> options (fst (destroy ctl w)) = JNull
     \<and> callbacks (fst (destroy ctl w)) = None
     \<and> iframe (fst (destroy ctl w)) = None
     \<and> containerElement (fst (destroy ctl w)) = None
     \<and> addJsonToDocument p (fst (destroy ctl w)) w' json = (None, [])
     \<and> setSenderPhotosFiles p (fst (destroy ctl w)) w' photosFiles = (None, [])"
  using assms
  by (simp add: destroy_def deliver_def addJsonToDocument_def setSenderPhotosFiles_def)

text \<open>
  The rule at the demo controller, which before the teardown has its frame in element 7
  and whose sender does post.
\<close>

theorem destroy_releases_everything_witness:
  "iframe demo_controller = Some FrameHandle
   \<and> parentNode demo_world FrameNode = Some 7
   \<and> addJsonToDocument demo_platform demo_controller demo_world (JStr ''x'')
       = (None, [PostMessage FrameWindow
                   (JObj [(''source'', JStr ''parent''), (''messageType'', JStr ''addJsonToDocument''),
                          (''json'', JStr ''x'')])])
   \<and> parentNode (snd (destroy demo_controller demo_world)) FrameNode = None
   \<and> deliver demo_platform demo_throws (fst (destroy demo_controller demo_world))
        (snd (destroy demo_controller demo_world)) (from_frame demo_message)
       = (None, snd (destroy demo_controller demo_world), [])
   \<and> addJsonToDocument demo_platform (fst (destroy demo_controller demo_world)) demo_world (JStr ''x'')
       = (None, [])
   \<and> setSenderPhotosFiles demo_platform (fst (destroy demo_controller demo_world)) demo_world (JStr ''x'')
       = (None, [])"
proof -
  have live: "iframe demo_controller = Some FrameHandle"
    by (simp add: demo_controller_def)
  have before: "parentNode demo_world FrameNode = Some 7"
      "addJsonToDocument demo_platform demo_controller demo_world (JStr ''x'')
         = (None, [PostMessage FrameWindow
                   (JObj [(''source'', JStr ''parent''), (''messageType'', JStr ''addJsonToDocument''),
                          (''json'', JStr ''x'')])])"
    by (simp_all add: addJsonToDocument_def demo_eval)
  show ?thesis
    using live before
      destroy_releases_everything
        [OF live, of demo_world demo_platform demo_throws "from_frame demo_message" demo_world
           "JStr ''x''" "JStr ''x''"]
    by simp
qed

end
